theory Spec2Isabelle
  imports Main
begin

section \<open>Text helpers of the host language\<close>

text \<open>
  Text is a list of characters; a character stands for a code point below 256.
  \<open>isspace\<close> is \<^verbatim>\<open>str.isspace\<close> on that range: tab, line feed, vertical tab, form feed,
  carriage return, the four separators 28 to 31, the blank, NEL (133) and the
  no-break space (160).
\<close>

definition isspace :: "char \<Rightarrow> bool" where
  "isspace c = (c \<in> set [CHR 0x09, CHR 0x0A, CHR 0x0B, CHR 0x0C, CHR 0x0D,
                          CHR 0x1C, CHR 0x1D, CHR 0x1E, CHR 0x1F, CHR 0x20,
                          CHR 0x85, CHR 0xA0])"

text \<open>\<^verbatim>\<open>s.strip()\<close>: whitespace is removed at both ends.\<close>

definition strip :: "string \<Rightarrow> string" where
  "strip s = rev (dropWhile isspace (rev (dropWhile isspace s)))"

text \<open>Truth value of an optional text: \<^verbatim>\<open>None\<close> and the empty text are false.\<close>

fun truthy :: "string option \<Rightarrow> bool" where
  "truthy None = False"
| "truthy (Some s) = (s \<noteq> [])"

section \<open>DownloadWorker\<close>

text \<open>The two signals of the worker: \<^verbatim>\<open>output\<close> carries a text, \<^verbatim>\<open>finished\<close> nothing.\<close>

datatype event = Line string | Completed

record DownloadWorker =
  url :: string
  video_dir :: string
  audio_dir :: string
  audio_only :: bool
  cookies_browser :: "string option"
  cookies_file :: "string option"

text \<open>\<^verbatim>\<open>self.output.emit(text)\<close>, with the events emitted so far passed along.\<close>

definition emit :: "string \<Rightarrow> event list \<Rightarrow> event list" where
  "emit text out = out @ [Line text]"

text \<open>
  Lines 32 to 51 of \<^verbatim>\<open>DownloadWorker.run\<close>: the argument vector \<^verbatim>\<open>cmd\<close> is built by
  \<^verbatim>\<open>extend\<close> and \<^verbatim>\<open>append\<close>, and the start messages are emitted. The result is the
  vector handed to \<^verbatim>\<open>subprocess.Popen\<close> and the events emitted up to there.
\<close>

definition run_prepare :: "DownloadWorker \<Rightarrow> string list \<times> event list" where
  "run_prepare self =
     (let (cmd, out) =
            (if audio_only self
             then (let download_dir = audio_dir self
                   in ([''yt-dlp'', ''-x'', ''--audio-format'', ''mp3'', ''-P'', download_dir],
                       emit (''Starting audio download: '' @ url self @ [CHR 0x0A]
                             @ ''Download directory: '' @ download_dir) []))
             else (let download_dir = video_dir self
                   in ([''yt-dlp'', ''-P'', download_dir],
                       emit (''Starting video download: '' @ url self @ [CHR 0x0A]
                             @ ''Download directory: '' @ download_dir) [])));
          (cmd, out) =
            (if truthy (cookies_file self)
             then (case cookies_file self of
                     Some f \<Rightarrow> (cmd @ [''--cookies'', f], emit (''Using cookies file: '' @ f) out)
                   | None \<Rightarrow> (cmd, out))
             else if truthy (cookies_browser self)
             then (case cookies_browser self of
                     Some b \<Rightarrow> (cmd @ [''--cookies-from-browser'', b],
                                emit (''Using cookies from browser: '' @ b) out)
                   | None \<Rightarrow> (cmd, out))
             else (cmd, out))
      in (cmd @ [url self], out))"

definition run_cmd :: "DownloadWorker \<Rightarrow> string list" where
  "run_cmd self = fst (run_prepare self)"

text \<open>
  What \<^verbatim>\<open>subprocess.Popen\<close> and the reads of the child's output do in one run:
  the spawn raises (with the text of the exception), or the child is started and its
  combined output yields the given raw lines, after which the stream ends and the child
  exits (\<open>None\<close>), or a read or the wait for the child raises (the text of the
  exception).
\<close>

datatype popen_result = SpawnFails string | Spawned "string list" "string option"

text \<open>\<^verbatim>\<open>for line in process.stdout: self.output.emit(line.strip())\<close>\<close>

fun stdout_loop :: "string list \<Rightarrow> event list \<Rightarrow> event list" where
  "stdout_loop [] out = out"
| "stdout_loop (line # rest) out = stdout_loop rest (emit (strip line) out)"

text \<open>\<^verbatim>\<open>DownloadWorker.run\<close>: every event the worker emits, in emission order.\<close>

definition run :: "DownloadWorker \<Rightarrow> popen_result \<Rightarrow> event list" where
  "run self r =
     (let (cmd, out) = run_prepare self;
          out = (case r of
                   SpawnFails e \<Rightarrow> emit (''Error: '' @ e) out
                 | Spawned lines None \<Rightarrow> emit ''Download finished.'' (stdout_loop lines out)
                 | Spawned lines (Some e) \<Rightarrow> emit (''Error: '' @ e) (stdout_loop lines out))
      in out @ [Completed])"

section \<open>YtDlpGui: the download controls\<close>

text \<open>
  The browser combo box is filled once with five entries and is not editable, so its
  current text is one of them.
\<close>

datatype browser = Brave | Chrome | Edge | Firefox | Vivaldi

fun currentText :: "browser \<Rightarrow> string" where
  "currentText Brave = ''brave''"
| "currentText Chrome = ''chrome''"
| "currentText Edge = ''edge''"
| "currentText Firefox = ''firefox''"
| "currentText Vivaldi = ''vivaldi''"

text \<open>
  The attributes and widgets that the download path reads and writes. The source
  annotates the directories and the URL of this path as \<^verbatim>\<open>str\<close>. A check box is its
  checked state, a line edit its text, a button its enabled state, and the status
  display the list of texts appended to it.
\<close>

record YtDlpGui =
  self_video_dir :: string
  self_audio_dir :: string
  last_save_dir :: string
  cookies_file_path :: string
  url_input :: string
  audio_only_checkbox :: bool
  override_save_location_checkbox :: bool
  use_cookies_checkbox :: bool
  cookies_browser_combo :: browser
  cookies_profile_input :: string
  use_cookies_file_checkbox :: bool
  status_display :: "string list"
  download_btn :: bool
  open_last_save_btn :: bool
  worker :: "DownloadWorker option"

text \<open>\<^verbatim>\<open>_update_last_save_button_state\<close>; \<open>isdir\<close> is \<^verbatim>\<open>os.path.isdir\<close>.\<close>

definition update_last_save_button_state :: "(string \<Rightarrow> bool) \<Rightarrow> YtDlpGui \<Rightarrow> YtDlpGui" where
  "update_last_save_button_state isdir self =
     self\<lparr>open_last_save_btn := (strip (last_save_dir self) \<noteq> [] \<and> isdir (last_save_dir self))\<rparr>"

text \<open>
  \<^verbatim>\<open>_resolve_download_dirs\<close>. \<open>picked\<close> is what the directory dialog returns when it
  is shown: the chosen path, or the empty text when the user cancels. The source
  returns the pair \<^verbatim>\<open>(None, None)\<close> on cancel and two texts otherwise; the model
  returns \<open>None\<close> for the former.
\<close>

definition resolve_download_dirs ::
  "string \<Rightarrow> bool \<Rightarrow> string \<Rightarrow> string \<Rightarrow> bool \<Rightarrow> (string \<times> string) option" where
  "resolve_download_dirs picked audio vdir adir override_save =
     (if \<not> override_save then Some (vdir, adir)
      else if audio then (if picked = [] then None else Some (vdir, picked))
      else (if picked = [] then None else Some (picked, adir)))"

text \<open>\<^verbatim>\<open>_get_cookies_selection\<close>: the pair \<^verbatim>\<open>(cookies_browser, cookies_file)\<close>.\<close>

definition get_cookies_selection :: "YtDlpGui \<Rightarrow> string option \<times> string option" where
  "get_cookies_selection self =
     (let use_cookies = use_cookies_checkbox self;
          use_cookies_file = use_cookies_file_checkbox self
      in if use_cookies_file \<and> cookies_file_path self \<noteq> []
         then (None, Some (cookies_file_path self))
         else if use_cookies
         then (let browser = currentText (cookies_browser_combo self);
                   profile = strip (cookies_profile_input self);
                   cb = (if profile \<noteq> [] then browser @ '':'' @ profile else browser)
               in (Some cb, None))
         else (None, None))"

text \<open>
  \<^verbatim>\<open>_start_worker\<close>: the button is disabled, an empty text is appended to the
  status display, and a worker is created and started on its own thread.
\<close>

definition start_worker ::
  "string \<Rightarrow> string \<Rightarrow> string \<Rightarrow> bool \<Rightarrow> string option \<Rightarrow> string option \<Rightarrow> YtDlpGui \<Rightarrow> YtDlpGui" where
  "start_worker u vdir adir audio cb cf self =
     self\<lparr>download_btn := False,
          status_display := status_display self @ [[]],
          worker := Some \<lparr>url = u, video_dir = vdir, audio_dir = adir, audio_only = audio,
                          cookies_browser = cb, cookies_file = cf\<rparr>\<rparr>"

text \<open>\<^verbatim>\<open>start_download\<close>, the slot of the Download button.\<close>

definition start_download :: "string \<Rightarrow> (string \<Rightarrow> bool) \<Rightarrow> YtDlpGui \<Rightarrow> YtDlpGui" where
  "start_download picked isdir self =
     (let u = strip (url_input self)
      in if u = []
         then self\<lparr>status_display := status_display self @ [''Please enter a URL.'']\<rparr>
         else
           (let audio = audio_only_checkbox self;
                override_save = override_save_location_checkbox self
            in case resolve_download_dirs picked audio (self_video_dir self)
                      (self_audio_dir self) override_save of
                 None \<Rightarrow> self\<lparr>status_display := status_display self @ [''Download cancelled.'']\<rparr>
               | Some (vdir, adir) \<Rightarrow>
                   (let self1 = update_last_save_button_state isdir
                                  (self\<lparr>last_save_dir := (if audio then adir else vdir)\<rparr>);
                        (cb, cf) = get_cookies_selection self1
                    in start_worker u vdir adir audio cb cf self1)))"

text \<open>
  The slots connected to the worker's signals: \<^verbatim>\<open>output\<close> appends to the status
  display, \<^verbatim>\<open>finished\<close> runs \<^verbatim>\<open>download_finished\<close>.
\<close>

fun deliver :: "YtDlpGui \<Rightarrow> event \<Rightarrow> YtDlpGui" where
  "deliver self (Line text) = self\<lparr>status_display := status_display self @ [text]\<rparr>"
| "deliver self Completed = self\<lparr>download_btn := True\<rparr>"

section \<open>YtDlpGui: the settings file\<close>

text \<open>
  A value as \<^verbatim>\<open>json.load\<close> returns it; an object is a dictionary, written as the
  list of its items. Numbers are the integers that \<^verbatim>\<open>save_config\<close> writes.
\<close>

datatype json = JNull | JBool bool | JInt int | JStr string
  | JArr "json list" | JObj "(string \<times> json) list"

text \<open>
  The settings file as \<^verbatim>\<open>load_config\<close> meets it: it does not exist, or opening
  or decoding it raises, or it decodes to a value.
\<close>

datatype config_file = Missing | Unparseable | Parsed json

text \<open>
  The attributes that the settings code assigns. \<^verbatim>\<open>load_config\<close> stores whatever
  the decoder returns, so they hold decoded values. \<open>s_window_size\<close> is \<open>None\<close>
  while the object has no attribute \<^verbatim>\<open>window_size\<close>.
\<close>

record settings =
  s_video_dir :: json
  s_audio_dir :: json
  s_last_save_dir :: json
  s_window_size :: "json option"

text \<open>\<^verbatim>\<open>config.get(key, default)\<close> on a dictionary.\<close>

definition dict_get :: "(string \<times> json) list \<Rightarrow> string \<Rightarrow> json \<Rightarrow> json" where
  "dict_get kvs k d = (case map_of kvs k of None \<Rightarrow> d | Some v \<Rightarrow> v)"

text \<open>
  \<^verbatim>\<open>load_config\<close>. A decoded value that is not a dictionary has no \<^verbatim>\<open>get\<close>: the
  first call raises, which the handler swallows before anything is assigned.
\<close>

definition load_config :: "config_file \<Rightarrow> settings \<Rightarrow> settings" where
  "load_config f self =
     (case f of
        Missing \<Rightarrow> self
      | Unparseable \<Rightarrow> self
      | Parsed config \<Rightarrow>
          (case config of
             JObj kvs \<Rightarrow>
               self\<lparr>s_video_dir := dict_get kvs ''video_dir'' (s_video_dir self),
                    s_audio_dir := dict_get kvs ''audio_dir'' (s_audio_dir self),
                    s_last_save_dir := dict_get kvs ''last_save_dir'' (s_last_save_dir self),
                    s_window_size := Some (dict_get kvs ''window_size'' JNull)\<rparr>
           | _ \<Rightarrow> self))"

text \<open>
  How the write in \<^verbatim>\<open>save_config\<close> ends: the file is written, or opening it raises
  (the file stays as it was), or writing raises after the file was truncated.
\<close>

datatype write_outcome = Written | OpenFails | DumpFails

text \<open>
  \<^verbatim>\<open>save_config\<close>: the new state of the settings file. \<open>w\<close> and \<open>h\<close> are
  \<^verbatim>\<open>self.width()\<close> and \<^verbatim>\<open>self.height()\<close>.
\<close>

definition save_config :: "write_outcome \<Rightarrow> settings \<Rightarrow> int \<Rightarrow> int \<Rightarrow> config_file \<Rightarrow> config_file" where
  "save_config wo self w h f =
     (let config = JObj [(''video_dir'', s_video_dir self),
                         (''audio_dir'', s_audio_dir self),
                         (''last_save_dir'', s_last_save_dir self),
                         (''window_size'', JArr [JInt w, JInt h])]
      in case wo of Written \<Rightarrow> Parsed config | OpenFails \<Rightarrow> f | DumpFails \<Rightarrow> Unparseable)"

datatype py_error = TypeError | ToolkitError string

text \<open>
  The argument list that \<^verbatim>\<open>f(*v)\<close> passes for a decoded value: \<^verbatim>\<open>None\<close>, a
  truth value and a number are not iterable.
\<close>

fun star_args :: "json \<Rightarrow> py_error + json list" where
  "star_args JNull = Inl TypeError"
| "star_args (JBool b) = Inl TypeError"
| "star_args (JInt i) = Inl TypeError"
| "star_args (JStr s) = Inr (map (\<lambda>c. JStr [c]) s)"
| "star_args (JArr xs) = Inr xs"
| "star_args (JObj kvs) = Inr (map (\<lambda>kv. JStr (fst kv)) kvs)"

text \<open>
  \<^verbatim>\<open>YtDlpGui.__init__\<close> as far as the settings go: the defaults, \<^verbatim>\<open>load_config\<close>,
  the construction of the widgets, and the restoring of the window size under
  \<^verbatim>\<open>hasattr(self, 'window_size')\<close>. The toolkit is not part of the program:
  \<open>widgets\<close> is what the widget construction of lines 118 to 251 does with the loaded
  attributes (\<open>None\<close>: nothing is raised), \<open>qsize\<close> is the constructor \<^verbatim>\<open>QSize\<close> on
  an argument list, and \<open>home\<close> is \<^verbatim>\<open>os.path.expanduser("~")\<close>. The result is the
  exception that leaves the constructor, or the attributes and the size that the
  window was resized to, if any.
\<close>

definition init ::
  "(settings \<Rightarrow> py_error option) \<Rightarrow> (json list \<Rightarrow> py_error + int \<times> int) \<Rightarrow> string \<Rightarrow> config_file
     \<Rightarrow> py_error + settings \<times> (int \<times> int) option" where
  "init widgets qsize home f =
     (let self = load_config f \<lparr>s_video_dir = JStr home, s_audio_dir = JStr home,
                                 s_last_save_dir = JStr [], s_window_size = None\<rparr>
      in case widgets self of
           Some e \<Rightarrow> Inl e
         | None \<Rightarrow>
             (case s_window_size self of
                None \<Rightarrow> Inr (self, None)
              | Some ws \<Rightarrow>
                  (case star_args ws of
                     Inl e \<Rightarrow> Inl e
                   | Inr args \<Rightarrow>
                       (case qsize args of
                          Inl e \<Rightarrow> Inl e
                        | Inr sz \<Rightarrow> Inr (self, Some sz)))))"

section \<open>Notions used to state the properties\<close>

text \<open>Removal of trailing whitespace only, the reading of "trailing whitespace stripped".\<close>

definition rstrip :: "string \<Rightarrow> string" where
  "rstrip s = rev (dropWhile isspace (rev s))"

text \<open>An error report of the worker: a line event whose text starts with \<^verbatim>\<open>Error: \<close>.\<close>

definition is_error_line :: "event \<Rightarrow> bool" where
  "is_error_line ev = (case ev of Line text \<Rightarrow> take 7 text = ''Error: '' | Completed \<Rightarrow> False)"

section \<open>Auxiliary facts\<close>

lemma strip_rstrip: "strip s = rstrip (dropWhile isspace s)"
  by (simp add: strip_def rstrip_def)

lemma strip_empty_iff: "strip s = [] \<longleftrightarrow> (\<forall>c\<in>set s. isspace c)"
proof -
  have "strip s = [] \<longleftrightarrow> (\<forall>c\<in>set (dropWhile isspace s). isspace c)"
    by (simp add: strip_def dropWhile_eq_Nil_conv)
  also have "\<dots> \<longleftrightarrow> (\<forall>c\<in>set s. isspace c)"
  proof
    assume a: "\<forall>c\<in>set (dropWhile isspace s). isspace c"
    have "set s = set (takeWhile isspace s) \<union> set (dropWhile isspace s)"
      by (metis set_append takeWhile_dropWhile_id)
    then show "\<forall>c\<in>set s. isspace c"
      using a by (auto dest: set_takeWhileD)
  next
    assume "\<forall>c\<in>set s. isspace c"
    then show "\<forall>c\<in>set (dropWhile isspace s). isspace c"
      by (auto dest: set_dropWhileD)
  qed
  finally show ?thesis .
qed

lemma strip_decomp:
  "s = takeWhile isspace s @ strip s @ rev (takeWhile isspace (rev (dropWhile isspace s)))"
proof -
  let ?t = "dropWhile isspace s"
  have "strip s @ rev (takeWhile isspace (rev ?t))
          = rev (takeWhile isspace (rev ?t) @ dropWhile isspace (rev ?t))"
    by (simp only: strip_def rev_append)
  also have "\<dots> = rev (rev ?t)" by (simp only: takeWhile_dropWhile_id)
  also have "\<dots> = ?t" by (rule rev_rev_ident)
  finally have "takeWhile isspace s @ strip s @ rev (takeWhile isspace (rev ?t))
                  = takeWhile isspace s @ ?t" by (rule arg_cong)
  then show ?thesis by (simp only: takeWhile_dropWhile_id)
qed

lemma dropWhile_rev_nonempty: "dropWhile P (rev t) \<noteq> [] \<Longrightarrow> t \<noteq> []"
  by auto

lemma last_dropWhile: "dropWhile P xs \<noteq> [] \<Longrightarrow> last (dropWhile P xs) = last xs"
proof -
  assume n: "dropWhile P xs \<noteq> []"
  have "last xs = last (takeWhile P xs @ dropWhile P xs)" by simp
  also have "\<dots> = last (dropWhile P xs)" using n by (rule last_appendR)
  finally show ?thesis by simp
qed

lemma strip_ends:
  assumes "strip s \<noteq> []"
  shows "\<not> isspace (hd (strip s))" and "\<not> isspace (last (strip s))"
proof -
  let ?t = "dropWhile isspace s"
  let ?u = "dropWhile isspace (rev ?t)"
  have u: "?u \<noteq> []" using assms by (simp add: strip_def)
  then have t: "?t \<noteq> []" by (rule dropWhile_rev_nonempty)
  have "last (strip s) = hd ?u" using u by (simp add: strip_def last_rev)
  moreover have "\<not> isspace (hd ?u)" using u by (rule hd_dropWhile)
  ultimately show "\<not> isspace (last (strip s))" by simp
  have "hd (strip s) = last ?u" using u by (simp add: strip_def hd_rev)
  also have "\<dots> = last (rev ?t)" using u by (rule last_dropWhile)
  also have "\<dots> = hd ?t" using t by (simp only: last_rev)
  finally have "hd (strip s) = hd ?t" .
  moreover have "\<not> isspace (hd ?t)" using t by (rule hd_dropWhile)
  ultimately show "\<not> isspace (hd (strip s))" by simp
qed

lemma stdout_loop_eq: "stdout_loop ls out = out @ map (\<lambda>l. Line (strip l)) ls"
  by (induction ls arbitrary: out) (simp_all add: emit_def)

lemma run_prepare_eq:
  "run_prepare w =
     ((if audio_only w
       then [''yt-dlp'', ''-x'', ''--audio-format'', ''mp3'', ''-P'', audio_dir w]
       else [''yt-dlp'', ''-P'', video_dir w])
      @ (case cookies_file w of
           Some (c # cs) \<Rightarrow> [''--cookies'', c # cs]
         | _ \<Rightarrow> (case cookies_browser w of
                   Some (b # bs) \<Rightarrow> [''--cookies-from-browser'', b # bs]
                 | _ \<Rightarrow> []))
      @ [url w],
      [Line ((if audio_only w then ''Starting audio download: '' else ''Starting video download: '')
             @ url w @ [CHR 0x0A] @ ''Download directory: ''
             @ (if audio_only w then audio_dir w else video_dir w))]
      @ (case cookies_file w of
           Some (c # cs) \<Rightarrow> [Line (''Using cookies file: '' @ c # cs)]
         | _ \<Rightarrow> (case cookies_browser w of
                   Some (b # bs) \<Rightarrow> [Line (''Using cookies from browser: '' @ b # bs)]
                 | _ \<Rightarrow> [])))"
  by (simp add: run_prepare_def Let_def emit_def split: option.splits list.splits)

lemma run_cmd_eq:
  "run_cmd w =
     (if audio_only w
      then [''yt-dlp'', ''-x'', ''--audio-format'', ''mp3'', ''-P'', audio_dir w]
      else [''yt-dlp'', ''-P'', video_dir w])
     @ (case cookies_file w of
          Some (c # cs) \<Rightarrow> [''--cookies'', c # cs]
        | _ \<Rightarrow> (case cookies_browser w of
                  Some (b # bs) \<Rightarrow> [''--cookies-from-browser'', b # bs]
                | _ \<Rightarrow> []))
     @ [url w]"
  by (simp add: run_cmd_def run_prepare_eq)

lemma currentText_nonempty: "currentText b \<noteq> []"
  by (cases b) simp_all

lemma get_cookies_selection_unchanged:
  "get_cookies_selection (update_last_save_button_state isdir (g\<lparr>last_save_dir := d\<rparr>))
     = get_cookies_selection g"
  by (simp add: get_cookies_selection_def update_last_save_button_state_def)

lemma start_download_started:
  assumes "strip (url_input g) \<noteq> []"
    and "resolve_download_dirs picked (audio_only_checkbox g) (self_video_dir g)
           (self_audio_dir g) (override_save_location_checkbox g) = Some (vdir, adir)"
  shows "worker (start_download picked isdir g) =
           Some \<lparr>url = strip (url_input g), video_dir = vdir, audio_dir = adir,
                 audio_only = audio_only_checkbox g,
                 cookies_browser = fst (get_cookies_selection g),
                 cookies_file = snd (get_cookies_selection g)\<rparr>"
  using assms
  by (simp add: start_download_def Let_def start_worker_def get_cookies_selection_unchanged
        split: prod.splits)

lemma start_download_not_started:
  assumes "strip (url_input g) = [] \<or>
           resolve_download_dirs picked (audio_only_checkbox g) (self_video_dir g)
             (self_audio_dir g) (override_save_location_checkbox g) = None"
  shows "worker (start_download picked isdir g) = worker g"
  using assms by (auto simp: start_download_def Let_def)

lemma start_download_worker_cookies:
  assumes "worker g = None" and "worker (start_download picked isdir g) = Some w"
  shows "cookies_browser w = fst (get_cookies_selection g)"
    and "cookies_file w = snd (get_cookies_selection g)"
    and "url w = strip (url_input g)" and "url w \<noteq> []"
    and "audio_only w = audio_only_checkbox g"
proof -
  have u: "strip (url_input g) \<noteq> []"
    using assms start_download_not_started [of g picked isdir] by auto
  obtain vdir adir where r: "resolve_download_dirs picked (audio_only_checkbox g)
      (self_video_dir g) (self_audio_dir g) (override_save_location_checkbox g) = Some (vdir, adir)"
    using assms start_download_not_started [of g picked isdir] by (cases "resolve_download_dirs picked (audio_only_checkbox g)
      (self_video_dir g) (self_audio_dir g) (override_save_location_checkbox g)") auto
  have w: "w = \<lparr>url = strip (url_input g), video_dir = vdir, audio_dir = adir,
                 audio_only = audio_only_checkbox g,
                 cookies_browser = fst (get_cookies_selection g),
                 cookies_file = snd (get_cookies_selection g)\<rparr>"
    using start_download_started [OF u r, of isdir] assms(2) by simp
  show "cookies_browser w = fst (get_cookies_selection g)"
    and "cookies_file w = snd (get_cookies_selection g)"
    and "url w = strip (url_input g)" and "url w \<noteq> []"
    and "audio_only w = audio_only_checkbox g"
    using w u by simp_all
qed

section \<open>The properties\<close>

subsection \<open>C1: the argument vector\<close>

text \<open>
  C1. The vector handed to the external tool is, in order: for an audio download
  \<^verbatim>\<open>yt-dlp -x --audio-format mp3 -P <audio_dir>\<close>, for a video download
  \<^verbatim>\<open>yt-dlp -P <video_dir>\<close>; then the cookie flags (\<^verbatim>\<open>--cookies <file>\<close> when the
  cookie file is a non-empty text, else \<^verbatim>\<open>--cookies-from-browser <browser>\<close> when the
  browser is a non-empty text, else nothing); then the URL as the last element. For
  the URL \<^verbatim>\<open>http://x/y\<close>, video mode, \<^verbatim>\<open>/tmp/v\<close> and no cookies, the arguments after
  the tool name are \<^verbatim>\<open>-P /tmp/v http://x/y\<close>.
\<close>

theorem C1_argument_vector:
  "run_cmd w =
     (if audio_only w
      then [''yt-dlp'', ''-x'', ''--audio-format'', ''mp3'', ''-P'', audio_dir w]
      else [''yt-dlp'', ''-P'', video_dir w])
     @ (case cookies_file w of
          Some (c # cs) \<Rightarrow> [''--cookies'', c # cs]
        | _ \<Rightarrow> (case cookies_browser w of
                  Some (b # bs) \<Rightarrow> [''--cookies-from-browser'', b # bs]
                | _ \<Rightarrow> []))
     @ [url w]
   \<and> tl (run_cmd \<lparr>url = ''http://x/y'', video_dir = ''/tmp/v'', audio_dir = a,
                   audio_only = False, cookies_browser = None, cookies_file = None\<rparr>)
       = [''-P'', ''/tmp/v'', ''http://x/y'']"
  by (simp add: run_cmd_eq)

text \<open>The closed form at an audio download with browser cookies.\<close>

theorem C1_argument_vector_witness:
  "run_cmd \<lparr>url = ''http://x/y'', video_dir = ''/tmp/v'', audio_dir = ''/tmp/a'',
            audio_only = True, cookies_browser = Some ''firefox'', cookies_file = None\<rparr>
     = [''yt-dlp'', ''-x'', ''--audio-format'', ''mp3'', ''-P'', ''/tmp/a'',
        ''--cookies-from-browser'', ''firefox'', ''http://x/y'']"
  using C1_argument_vector [of "\<lparr>url = ''http://x/y'', video_dir = ''/tmp/v'', audio_dir = ''/tmp/a'',
            audio_only = True, cookies_browser = Some ''firefox'', cookies_file = None\<rparr>"]
  by simp

subsection \<open>C2: precedence of the cookie file\<close>

text \<open>
  C2. When the worker is given both a cookie file and a browser (both non-empty),
  the vector is the mode prefix, then \<^verbatim>\<open>--cookies <file>\<close>, then the URL, so that the
  text \<^verbatim>\<open>--cookies-from-browser\<close> occurs in it only if the directory, the file path or
  the URL is that very text. With the browser alone the vector holds
  \<^verbatim>\<open>--cookies-from-browser <browser>\<close>, and with neither it holds no cookie flag. The
  same holds for the worker that \<^verbatim>\<open>start_download\<close> starts: with the file option
  checked, a chosen file and the browser option checked, the file wins; with the
  browser option alone the browser flag is passed; with neither, no cookie flag.
\<close>

theorem C2_cookie_precedence:
  "(cookies_file w = Some f \<and> f \<noteq> [] \<and> cookies_browser w = Some b \<and> b \<noteq> [] \<longrightarrow>
      run_cmd w =
        (if audio_only w
         then [''yt-dlp'', ''-x'', ''--audio-format'', ''mp3'', ''-P'', audio_dir w]
         else [''yt-dlp'', ''-P'', video_dir w]) @ [''--cookies'', f, url w]
      \<and> (''--cookies-from-browser'' \<in> set (run_cmd w) \<longrightarrow>
           ''--cookies-from-browser'' \<in> {if audio_only w then audio_dir w else video_dir w, f, url w}))
   \<and> (\<not> truthy (cookies_file w) \<and> cookies_browser w = Some b \<and> b \<noteq> [] \<longrightarrow>
        run_cmd w =
          (if audio_only w
           then [''yt-dlp'', ''-x'', ''--audio-format'', ''mp3'', ''-P'', audio_dir w]
           else [''yt-dlp'', ''-P'', video_dir w]) @ [''--cookies-from-browser'', b, url w])
   \<and> (\<not> truthy (cookies_file w) \<and> \<not> truthy (cookies_browser w) \<longrightarrow>
        run_cmd w =
          (if audio_only w
           then [''yt-dlp'', ''-x'', ''--audio-format'', ''mp3'', ''-P'', audio_dir w]
           else [''yt-dlp'', ''-P'', video_dir w]) @ [url w])
   \<and> (worker g = None \<and> worker (start_download picked isdir g) = Some w' \<longrightarrow>
        (use_cookies_file_checkbox g \<and> cookies_file_path g \<noteq> [] \<and> use_cookies_checkbox g \<longrightarrow>
           run_cmd w' =
             (if audio_only w'
              then [''yt-dlp'', ''-x'', ''--audio-format'', ''mp3'', ''-P'', audio_dir w']
              else [''yt-dlp'', ''-P'', video_dir w']) @ [''--cookies'', cookies_file_path g, url w'])
        \<and> (\<not> (use_cookies_file_checkbox g \<and> cookies_file_path g \<noteq> []) \<and> use_cookies_checkbox g \<longrightarrow>
             run_cmd w' =
               (if audio_only w'
                then [''yt-dlp'', ''-x'', ''--audio-format'', ''mp3'', ''-P'', audio_dir w']
                else [''yt-dlp'', ''-P'', video_dir w'])
               @ [''--cookies-from-browser'',
                  (if strip (cookies_profile_input g) \<noteq> []
                   then currentText (cookies_browser_combo g) @ '':'' @ strip (cookies_profile_input g)
                   else currentText (cookies_browser_combo g)),
                  url w'])
        \<and> (\<not> (use_cookies_file_checkbox g \<and> cookies_file_path g \<noteq> []) \<and> \<not> use_cookies_checkbox g \<longrightarrow>
             run_cmd w' =
               (if audio_only w'
                then [''yt-dlp'', ''-x'', ''--audio-format'', ''mp3'', ''-P'', audio_dir w']
                else [''yt-dlp'', ''-P'', video_dir w']) @ [url w']))"
proof (intro conjI impI)
  assume a: "cookies_file w = Some f \<and> f \<noteq> [] \<and> cookies_browser w = Some b \<and> b \<noteq> []"
  then show c: "run_cmd w =
        (if audio_only w
         then [''yt-dlp'', ''-x'', ''--audio-format'', ''mp3'', ''-P'', audio_dir w]
         else [''yt-dlp'', ''-P'', video_dir w]) @ [''--cookies'', f, url w]"
    by (cases f) (simp_all add: run_cmd_eq)
  assume "''--cookies-from-browser'' \<in> set (run_cmd w)"
  then show "''--cookies-from-browser'' \<in> {if audio_only w then audio_dir w else video_dir w, f, url w}"
    unfolding c by (auto split: if_splits)
next
  assume "\<not> truthy (cookies_file w) \<and> cookies_browser w = Some b \<and> b \<noteq> []"
  then show "run_cmd w =
          (if audio_only w
           then [''yt-dlp'', ''-x'', ''--audio-format'', ''mp3'', ''-P'', audio_dir w]
           else [''yt-dlp'', ''-P'', video_dir w]) @ [''--cookies-from-browser'', b, url w]"
    by (cases b; cases "cookies_file w") (auto simp: run_cmd_eq)
next
  assume "\<not> truthy (cookies_file w) \<and> \<not> truthy (cookies_browser w)"
  then show "run_cmd w =
          (if audio_only w
           then [''yt-dlp'', ''-x'', ''--audio-format'', ''mp3'', ''-P'', audio_dir w]
           else [''yt-dlp'', ''-P'', video_dir w]) @ [url w]"
    by (cases "cookies_browser w"; cases "cookies_file w") (auto simp: run_cmd_eq)
next
  assume s: "worker g = None \<and> worker (start_download picked isdir g) = Some w'"
  then have w1: "worker g = None" and w2: "worker (start_download picked isdir g) = Some w'"
    by simp_all
  have cb: "cookies_browser w' = fst (get_cookies_selection g)"
    using w1 w2 by (rule start_download_worker_cookies(1))
  have cf: "cookies_file w' = snd (get_cookies_selection g)"
    using w1 w2 by (rule start_download_worker_cookies(2))
  {
    assume "use_cookies_file_checkbox g \<and> cookies_file_path g \<noteq> [] \<and> use_cookies_checkbox g"
    then show "run_cmd w' =
             (if audio_only w'
              then [''yt-dlp'', ''-x'', ''--audio-format'', ''mp3'', ''-P'', audio_dir w']
              else [''yt-dlp'', ''-P'', video_dir w']) @ [''--cookies'', cookies_file_path g, url w']"
      using cb cf by (cases "cookies_file_path g") (simp_all add: run_cmd_eq get_cookies_selection_def)
  }
  {
    assume "\<not> (use_cookies_file_checkbox g \<and> cookies_file_path g \<noteq> []) \<and> use_cookies_checkbox g"
    then show "run_cmd w' =
               (if audio_only w'
                then [''yt-dlp'', ''-x'', ''--audio-format'', ''mp3'', ''-P'', audio_dir w']
                else [''yt-dlp'', ''-P'', video_dir w'])
               @ [''--cookies-from-browser'',
                  (if strip (cookies_profile_input g) \<noteq> []
                   then currentText (cookies_browser_combo g) @ '':'' @ strip (cookies_profile_input g)
                   else currentText (cookies_browser_combo g)),
                  url w']"
      using cb cf
      by (cases "cookies_browser_combo g")
         (auto simp: run_cmd_eq get_cookies_selection_def Let_def)
  }
  {
    assume "\<not> (use_cookies_file_checkbox g \<and> cookies_file_path g \<noteq> []) \<and> \<not> use_cookies_checkbox g"
    then show "run_cmd w' =
               (if audio_only w'
                then [''yt-dlp'', ''-x'', ''--audio-format'', ''mp3'', ''-P'', audio_dir w']
                else [''yt-dlp'', ''-P'', video_dir w']) @ [url w']"
      using cb cf by (auto simp: run_cmd_eq get_cookies_selection_def Let_def)
  }
qed


text \<open>
  The three cases at concrete workers, and the window with both options checked and
  the file \<^verbatim>\<open>/tmp/c.txt\<close> chosen.
\<close>

theorem C2_cookie_precedence_witness:
  "run_cmd \<lparr>url = ''http://x/y'', video_dir = ''/tmp/v'', audio_dir = ''/tmp/a'',
            audio_only = False, cookies_browser = Some ''firefox'',
            cookies_file = Some ''/tmp/c.txt''\<rparr>
     = [''yt-dlp'', ''-P'', ''/tmp/v'', ''--cookies'', ''/tmp/c.txt'', ''http://x/y'']
   \<and> ''--cookies-from-browser'' \<notin> set (run_cmd \<lparr>url = ''http://x/y'', video_dir = ''/tmp/v'',
            audio_dir = ''/tmp/a'', audio_only = False, cookies_browser = Some ''firefox'',
            cookies_file = Some ''/tmp/c.txt''\<rparr>)
   \<and> run_cmd \<lparr>url = ''http://x/y'', video_dir = ''/tmp/v'', audio_dir = ''/tmp/a'',
            audio_only = True, cookies_browser = Some ''firefox'', cookies_file = None\<rparr>
     = [''yt-dlp'', ''-x'', ''--audio-format'', ''mp3'', ''-P'', ''/tmp/a'',
        ''--cookies-from-browser'', ''firefox'', ''http://x/y'']
   \<and> run_cmd \<lparr>url = ''http://x/y'', video_dir = ''/tmp/v'', audio_dir = ''/tmp/a'',
            audio_only = False, cookies_browser = None, cookies_file = Some []\<rparr>
     = [''yt-dlp'', ''-P'', ''/tmp/v'', ''http://x/y'']
   \<and> worker (start_download [] (\<lambda>p. True)
         \<lparr>self_video_dir = ''/tmp/v'', self_audio_dir = ''/tmp/a'', last_save_dir = [],
          cookies_file_path = ''/tmp/c.txt'', url_input = '' http://x/y '',
          audio_only_checkbox = False, override_save_location_checkbox = False,
          use_cookies_checkbox = True, cookies_browser_combo = Firefox,
          cookies_profile_input = ''Default'', use_cookies_file_checkbox = True,
          status_display = [], download_btn = True, open_last_save_btn = False,
          worker = None\<rparr>)
     = Some \<lparr>url = ''http://x/y'', video_dir = ''/tmp/v'', audio_dir = ''/tmp/a'',
             audio_only = False, cookies_browser = None, cookies_file = Some ''/tmp/c.txt''\<rparr>
   \<and> run_cmd \<lparr>url = ''http://x/y'', video_dir = ''/tmp/v'', audio_dir = ''/tmp/a'',
             audio_only = False, cookies_browser = None, cookies_file = Some ''/tmp/c.txt''\<rparr>
     = [''yt-dlp'', ''-P'', ''/tmp/v'', ''--cookies'', ''/tmp/c.txt'', ''http://x/y'']"
proof -
  let ?g = "\<lparr>self_video_dir = ''/tmp/v'', self_audio_dir = ''/tmp/a'', last_save_dir = [],
          cookies_file_path = ''/tmp/c.txt'', url_input = '' http://x/y '',
          audio_only_checkbox = False, override_save_location_checkbox = False,
          use_cookies_checkbox = True, cookies_browser_combo = Firefox,
          cookies_profile_input = ''Default'', use_cookies_file_checkbox = True,
          status_display = [], download_btn = True, open_last_save_btn = False,
          worker = None\<rparr>"
  let ?w = "\<lparr>url = ''http://x/y'', video_dir = ''/tmp/v'', audio_dir = ''/tmp/a'',
             audio_only = False, cookies_browser = None, cookies_file = Some ''/tmp/c.txt''\<rparr>"
  have u: "strip '' http://x/y '' = ''http://x/y''"
    by (simp add: strip_def isspace_def)
  have started: "worker (start_download [] (\<lambda>p. True) ?g) = Some ?w"
    by (simp add: start_download_def Let_def u resolve_download_dirs_def
          update_last_save_button_state_def get_cookies_selection_def start_worker_def)
  note a = C2_cookie_precedence [of "\<lparr>url = ''http://x/y'', video_dir = ''/tmp/v'',
            audio_dir = ''/tmp/a'', audio_only = False, cookies_browser = Some ''firefox'',
            cookies_file = Some ''/tmp/c.txt''\<rparr>" "''/tmp/c.txt''" "''firefox''" ?g "[]" "\<lambda>p. True" ?w]
  note b = C2_cookie_precedence [of "\<lparr>url = ''http://x/y'', video_dir = ''/tmp/v'',
            audio_dir = ''/tmp/a'', audio_only = True, cookies_browser = Some ''firefox'',
            cookies_file = None\<rparr>" "''/tmp/c.txt''" "''firefox''" ?g "[]" "\<lambda>p. True" ?w]
  note c = C2_cookie_precedence [of "\<lparr>url = ''http://x/y'', video_dir = ''/tmp/v'',
            audio_dir = ''/tmp/a'', audio_only = False, cookies_browser = None,
            cookies_file = Some []\<rparr>" "''/tmp/c.txt''" "''firefox''" ?g "[]" "\<lambda>p. True" ?w]
  show ?thesis
    using a b c started by simp
qed

subsection \<open>C3: the browser argument\<close>

text \<open>
  C3. With the browser option in force and \<^verbatim>\<open>firefox\<close> selected, the profile
  \<^verbatim>\<open>Default\<close> gives the cookie argument \<^verbatim>\<open>firefox:Default\<close>, and a profile that is
  empty or consists of whitespace gives \<^verbatim>\<open>firefox\<close>; any other profile is appended
  after a colon with the whitespace at its ends removed.
\<close>

theorem C3_browser_profile:
  "use_cookies_checkbox g \<and> \<not> (use_cookies_file_checkbox g \<and> cookies_file_path g \<noteq> [])
     \<and> cookies_browser_combo g = Firefox \<longrightarrow>
     (cookies_profile_input g = ''Default'' \<longrightarrow>
        get_cookies_selection g = (Some ''firefox:Default'', None))
     \<and> ((\<forall>c\<in>set (cookies_profile_input g). isspace c) \<longrightarrow>
          get_cookies_selection g = (Some ''firefox'', None))
     \<and> (strip (cookies_profile_input g) \<noteq> [] \<longrightarrow>
          get_cookies_selection g = (Some (''firefox:'' @ strip (cookies_profile_input g)), None))"
proof (intro impI conjI)
  assume a: "use_cookies_checkbox g \<and> \<not> (use_cookies_file_checkbox g \<and> cookies_file_path g \<noteq> [])
     \<and> cookies_browser_combo g = Firefox"
  have d: "strip ''Default'' = ''Default''" by (simp add: strip_def isspace_def)
  {
    assume "cookies_profile_input g = ''Default''"
    then show "get_cookies_selection g = (Some ''firefox:Default'', None)"
      using a d by (auto simp: get_cookies_selection_def Let_def)
  }
  {
    assume "\<forall>c\<in>set (cookies_profile_input g). isspace c"
    then have "strip (cookies_profile_input g) = []" by (simp add: strip_empty_iff)
    then show "get_cookies_selection g = (Some ''firefox'', None)"
      using a by (auto simp: get_cookies_selection_def Let_def)
  }
  {
    assume "strip (cookies_profile_input g) \<noteq> []"
    then show "get_cookies_selection g = (Some (''firefox:'' @ strip (cookies_profile_input g)), None)"
      using a by (auto simp: get_cookies_selection_def Let_def)
  }
qed

text \<open>The profiles \<^verbatim>\<open>Default\<close>, two blanks, and the empty text.\<close>

theorem C3_browser_profile_witness:
  "get_cookies_selection
     \<lparr>self_video_dir = ''/tmp/v'', self_audio_dir = ''/tmp/a'', last_save_dir = [],
      cookies_file_path = [], url_input = ''http://x/y'',
      audio_only_checkbox = False, override_save_location_checkbox = False,
      use_cookies_checkbox = True, cookies_browser_combo = Firefox,
      cookies_profile_input = ''Default'', use_cookies_file_checkbox = False,
      status_display = [], download_btn = True, open_last_save_btn = False,
      worker = None\<rparr> = (Some ''firefox:Default'', None)
   \<and> get_cookies_selection
     \<lparr>self_video_dir = ''/tmp/v'', self_audio_dir = ''/tmp/a'', last_save_dir = [],
      cookies_file_path = [], url_input = ''http://x/y'',
      audio_only_checkbox = False, override_save_location_checkbox = False,
      use_cookies_checkbox = True, cookies_browser_combo = Firefox,
      cookies_profile_input = ''  '', use_cookies_file_checkbox = False,
      status_display = [], download_btn = True, open_last_save_btn = False,
      worker = None\<rparr> = (Some ''firefox'', None)
   \<and> get_cookies_selection
     \<lparr>self_video_dir = ''/tmp/v'', self_audio_dir = ''/tmp/a'', last_save_dir = [],
      cookies_file_path = [], url_input = ''http://x/y'',
      audio_only_checkbox = False, override_save_location_checkbox = False,
      use_cookies_checkbox = True, cookies_browser_combo = Firefox,
      cookies_profile_input = [], use_cookies_file_checkbox = False,
      status_display = [], download_btn = True, open_last_save_btn = False,
      worker = None\<rparr> = (Some ''firefox'', None)"
proof -
  have sp: "isspace CHR '' ''" by (simp add: isspace_def)
  note a = C3_browser_profile [of "\<lparr>self_video_dir = ''/tmp/v'', self_audio_dir = ''/tmp/a'',
      last_save_dir = [], cookies_file_path = [], url_input = ''http://x/y'',
      audio_only_checkbox = False, override_save_location_checkbox = False,
      use_cookies_checkbox = True, cookies_browser_combo = Firefox,
      cookies_profile_input = ''Default'', use_cookies_file_checkbox = False,
      status_display = [], download_btn = True, open_last_save_btn = False,
      worker = None\<rparr>"]
  note b = C3_browser_profile [of "\<lparr>self_video_dir = ''/tmp/v'', self_audio_dir = ''/tmp/a'',
      last_save_dir = [], cookies_file_path = [], url_input = ''http://x/y'',
      audio_only_checkbox = False, override_save_location_checkbox = False,
      use_cookies_checkbox = True, cookies_browser_combo = Firefox,
      cookies_profile_input = ''  '', use_cookies_file_checkbox = False,
      status_display = [], download_btn = True, open_last_save_btn = False,
      worker = None\<rparr>"]
  note c = C3_browser_profile [of "\<lparr>self_video_dir = ''/tmp/v'', self_audio_dir = ''/tmp/a'',
      last_save_dir = [], cookies_file_path = [], url_input = ''http://x/y'',
      audio_only_checkbox = False, override_save_location_checkbox = False,
      use_cookies_checkbox = True, cookies_browser_combo = Firefox,
      cookies_profile_input = [], use_cookies_file_checkbox = False,
      status_display = [], download_btn = True, open_last_save_btn = False,
      worker = None\<rparr>"]
  show ?thesis using a b c sp by simp
qed

subsection \<open>C10: the file option without a file\<close>

text \<open>
  C10. When the file option is checked but no file has been chosen (the stored path
  is empty), the cookie selection is the browser selection if the browser option is
  checked and no cookie source otherwise; the file component is \<^verbatim>\<open>None\<close>. The worker
  that \<^verbatim>\<open>start_download\<close> then starts passes the browser flag or no cookie flag, and the
  text \<^verbatim>\<open>--cookies\<close> occurs in its vector only if the directory or the URL is that
  very text.
\<close>

theorem C10_empty_cookie_file:
  "use_cookies_file_checkbox g \<and> cookies_file_path g = [] \<longrightarrow>
     get_cookies_selection g =
       (if use_cookies_checkbox g
        then (Some (if strip (cookies_profile_input g) \<noteq> []
                    then currentText (cookies_browser_combo g) @ '':''
                         @ strip (cookies_profile_input g)
                    else currentText (cookies_browser_combo g)), None)
        else (None, None))
     \<and> snd (get_cookies_selection g) = None
     \<and> (worker g = None \<and> worker (start_download picked isdir g) = Some w \<longrightarrow>
          run_cmd w =
            (if audio_only w
             then [''yt-dlp'', ''-x'', ''--audio-format'', ''mp3'', ''-P'', audio_dir w]
             else [''yt-dlp'', ''-P'', video_dir w])
            @ (if use_cookies_checkbox g
               then [''--cookies-from-browser'',
                     (if strip (cookies_profile_input g) \<noteq> []
                      then currentText (cookies_browser_combo g) @ '':''
                           @ strip (cookies_profile_input g)
                      else currentText (cookies_browser_combo g))]
               else [])
            @ [url w]
          \<and> (''--cookies'' \<in> set (run_cmd w) \<longrightarrow>
               ''--cookies'' \<in> {if audio_only w then audio_dir w else video_dir w, url w}))"
proof (intro impI)
  assume a: "use_cookies_file_checkbox g \<and> cookies_file_path g = []"
  have sel: "get_cookies_selection g =
       (if use_cookies_checkbox g
        then (Some (if strip (cookies_profile_input g) \<noteq> []
                    then currentText (cookies_browser_combo g) @ '':''
                         @ strip (cookies_profile_input g)
                    else currentText (cookies_browser_combo g)), None)
        else (None, None))"
    using a by (simp add: get_cookies_selection_def Let_def)
  have none: "snd (get_cookies_selection g) = None"
    by (simp add: sel)
  have cmd: "run_cmd w =
            (if audio_only w
             then [''yt-dlp'', ''-x'', ''--audio-format'', ''mp3'', ''-P'', audio_dir w]
             else [''yt-dlp'', ''-P'', video_dir w])
            @ (if use_cookies_checkbox g
               then [''--cookies-from-browser'',
                     (if strip (cookies_profile_input g) \<noteq> []
                      then currentText (cookies_browser_combo g) @ '':''
                           @ strip (cookies_profile_input g)
                      else currentText (cookies_browser_combo g))]
               else [])
            @ [url w]"
    if s: "worker g = None \<and> worker (start_download picked isdir g) = Some w"
  proof -
    from s have w1: "worker g = None" and w2: "worker (start_download picked isdir g) = Some w"
      by simp_all
    have cb: "cookies_browser w = fst (get_cookies_selection g)"
      using w1 w2 by (rule start_download_worker_cookies(1))
    have cf: "cookies_file w = snd (get_cookies_selection g)"
      using w1 w2 by (rule start_download_worker_cookies(2))
    show ?thesis
      using cb cf sel
      by (cases "cookies_browser_combo g") (auto simp: run_cmd_eq)
  qed
  have nocookies: "''--cookies'' \<in> {if audio_only w then audio_dir w else video_dir w, url w}"
    if s: "worker g = None \<and> worker (start_download picked isdir g) = Some w"
      and m: "''--cookies'' \<in> set (run_cmd w)"
  proof -
    have "''--cookies'' \<noteq> currentText (cookies_browser_combo g) @ '':''
                         @ strip (cookies_profile_input g)"
      by (cases "cookies_browser_combo g") simp_all
    moreover have "''--cookies'' \<noteq> currentText (cookies_browser_combo g)"
      by (cases "cookies_browser_combo g") simp_all
    ultimately show ?thesis
      using m unfolding cmd [OF s] by (auto split: if_splits)
  qed
  show "get_cookies_selection g =
       (if use_cookies_checkbox g
        then (Some (if strip (cookies_profile_input g) \<noteq> []
                    then currentText (cookies_browser_combo g) @ '':''
                         @ strip (cookies_profile_input g)
                    else currentText (cookies_browser_combo g)), None)
        else (None, None))
     \<and> snd (get_cookies_selection g) = None
     \<and> (worker g = None \<and> worker (start_download picked isdir g) = Some w \<longrightarrow>
          run_cmd w =
            (if audio_only w
             then [''yt-dlp'', ''-x'', ''--audio-format'', ''mp3'', ''-P'', audio_dir w]
             else [''yt-dlp'', ''-P'', video_dir w])
            @ (if use_cookies_checkbox g
               then [''--cookies-from-browser'',
                     (if strip (cookies_profile_input g) \<noteq> []
                      then currentText (cookies_browser_combo g) @ '':''
                           @ strip (cookies_profile_input g)
                      else currentText (cookies_browser_combo g))]
               else [])
            @ [url w]
          \<and> (''--cookies'' \<in> set (run_cmd w) \<longrightarrow>
               ''--cookies'' \<in> {if audio_only w then audio_dir w else video_dir w, url w}))"
    using sel none cmd nocookies by blast
qed

text \<open>
  The window with the file option checked, no file chosen, and the browser option
  checked with \<^verbatim>\<open>chrome\<close>; and the same window with the browser option unchecked.
\<close>

theorem C10_empty_cookie_file_witness:
  "get_cookies_selection
     \<lparr>self_video_dir = ''/tmp/v'', self_audio_dir = ''/tmp/a'', last_save_dir = [],
      cookies_file_path = [], url_input = ''http://x/y'',
      audio_only_checkbox = False, override_save_location_checkbox = False,
      use_cookies_checkbox = True, cookies_browser_combo = Chrome,
      cookies_profile_input = [], use_cookies_file_checkbox = True,
      status_display = [], download_btn = True, open_last_save_btn = False,
      worker = None\<rparr> = (Some ''chrome'', None)
   \<and> run_cmd \<lparr>url = ''http://x/y'', video_dir = ''/tmp/v'', audio_dir = ''/tmp/a'',
             audio_only = False, cookies_browser = Some ''chrome'', cookies_file = None\<rparr>
     = [''yt-dlp'', ''-P'', ''/tmp/v'', ''--cookies-from-browser'', ''chrome'', ''http://x/y'']
   \<and> get_cookies_selection
     \<lparr>self_video_dir = ''/tmp/v'', self_audio_dir = ''/tmp/a'', last_save_dir = [],
      cookies_file_path = [], url_input = ''http://x/y'',
      audio_only_checkbox = False, override_save_location_checkbox = False,
      use_cookies_checkbox = False, cookies_browser_combo = Chrome,
      cookies_profile_input = [], use_cookies_file_checkbox = True,
      status_display = [], download_btn = True, open_last_save_btn = False,
      worker = None\<rparr> = (None, None)"
proof -
  let ?g = "\<lparr>self_video_dir = ''/tmp/v'', self_audio_dir = ''/tmp/a'', last_save_dir = [],
      cookies_file_path = [], url_input = ''http://x/y'',
      audio_only_checkbox = False, override_save_location_checkbox = False,
      use_cookies_checkbox = True, cookies_browser_combo = Chrome,
      cookies_profile_input = [], use_cookies_file_checkbox = True,
      status_display = [], download_btn = True, open_last_save_btn = False,
      worker = None\<rparr>"
  let ?w = "\<lparr>url = ''http://x/y'', video_dir = ''/tmp/v'', audio_dir = ''/tmp/a'',
             audio_only = False, cookies_browser = Some ''chrome'', cookies_file = None\<rparr>"
  have u: "strip ''http://x/y'' = ''http://x/y''"
    by (simp add: strip_def isspace_def)
  have e: "strip [] = []"
    by (simp add: strip_def)
  have started: "worker (start_download [] (\<lambda>p. True) ?g) = Some ?w"
    by (simp add: start_download_def Let_def u e resolve_download_dirs_def
          update_last_save_button_state_def get_cookies_selection_def start_worker_def)
  note a = C10_empty_cookie_file [of ?g "[]" "\<lambda>p. True" ?w]
  note b = C10_empty_cookie_file [of "?g\<lparr>use_cookies_checkbox := False\<rparr>" "[]" "\<lambda>p. True" ?w]
  show ?thesis
    using a b started e by simp
qed

subsection \<open>C7: rejected input\<close>

text \<open>
  C7. When the trimmed URL is empty, \<^verbatim>\<open>start_download\<close> only appends
  \<^verbatim>\<open>Please enter a URL.\<close> to the status display: no worker is created and nothing
  else changes. When the URL is not empty, the override option is checked and the
  directory dialog is cancelled, it only appends \<^verbatim>\<open>Download cancelled.\<close>: again no
  worker is created, so no vector is built and no process is spawned.
\<close>

theorem C7_rejected_before_start:
  "(strip (url_input g) = [] \<longrightarrow>
      start_download picked isdir g
        = g\<lparr>status_display := status_display g @ [''Please enter a URL.'']\<rparr>
      \<and> worker (start_download picked isdir g) = worker g)
   \<and> (strip (url_input g) \<noteq> [] \<and> override_save_location_checkbox g \<and> picked = [] \<longrightarrow>
        resolve_download_dirs picked (audio_only_checkbox g) (self_video_dir g)
          (self_audio_dir g) (override_save_location_checkbox g) = None
        \<and> start_download picked isdir g
            = g\<lparr>status_display := status_display g @ [''Download cancelled.'']\<rparr>
        \<and> worker (start_download picked isdir g) = worker g)"
  by (simp add: start_download_def Let_def resolve_download_dirs_def)

text \<open>
  A window without a worker: a URL of blanks, and a URL with the override option
  checked and the dialog cancelled.
\<close>

theorem C7_rejected_before_start_witness:
  "start_download ''/tmp/p'' (\<lambda>p. True)
     \<lparr>self_video_dir = ''/tmp/v'', self_audio_dir = ''/tmp/a'', last_save_dir = [],
      cookies_file_path = [], url_input = ''   '',
      audio_only_checkbox = False, override_save_location_checkbox = False,
      use_cookies_checkbox = False, cookies_browser_combo = Brave,
      cookies_profile_input = [], use_cookies_file_checkbox = False,
      status_display = [], download_btn = True, open_last_save_btn = False,
      worker = None\<rparr>
     = \<lparr>self_video_dir = ''/tmp/v'', self_audio_dir = ''/tmp/a'', last_save_dir = [],
        cookies_file_path = [], url_input = ''   '',
        audio_only_checkbox = False, override_save_location_checkbox = False,
        use_cookies_checkbox = False, cookies_browser_combo = Brave,
        cookies_profile_input = [], use_cookies_file_checkbox = False,
        status_display = [''Please enter a URL.''], download_btn = True,
        open_last_save_btn = False, worker = None\<rparr>
   \<and> start_download [] (\<lambda>p. True)
     \<lparr>self_video_dir = ''/tmp/v'', self_audio_dir = ''/tmp/a'', last_save_dir = [],
      cookies_file_path = [], url_input = ''http://x/y'',
      audio_only_checkbox = True, override_save_location_checkbox = True,
      use_cookies_checkbox = False, cookies_browser_combo = Brave,
      cookies_profile_input = [], use_cookies_file_checkbox = False,
      status_display = [], download_btn = True, open_last_save_btn = False,
      worker = None\<rparr>
     = \<lparr>self_video_dir = ''/tmp/v'', self_audio_dir = ''/tmp/a'', last_save_dir = [],
        cookies_file_path = [], url_input = ''http://x/y'',
        audio_only_checkbox = True, override_save_location_checkbox = True,
        use_cookies_checkbox = False, cookies_browser_combo = Brave,
        cookies_profile_input = [], use_cookies_file_checkbox = False,
        status_display = [''Download cancelled.''], download_btn = True,
        open_last_save_btn = False, worker = None\<rparr>"
proof -
  have blank: "strip ''   '' = []"
    by (simp add: strip_def isspace_def)
  have u: "strip ''http://x/y'' = ''http://x/y''"
    by (simp add: strip_def isspace_def)
  note a = C7_rejected_before_start [of "\<lparr>self_video_dir = ''/tmp/v'', self_audio_dir = ''/tmp/a'',
      last_save_dir = [], cookies_file_path = [], url_input = ''   '',
      audio_only_checkbox = False, override_save_location_checkbox = False,
      use_cookies_checkbox = False, cookies_browser_combo = Brave,
      cookies_profile_input = [], use_cookies_file_checkbox = False,
      status_display = [], download_btn = True, open_last_save_btn = False,
      worker = None\<rparr>" "''/tmp/p''" "\<lambda>p. True"]
  note b = C7_rejected_before_start [of "\<lparr>self_video_dir = ''/tmp/v'', self_audio_dir = ''/tmp/a'',
      last_save_dir = [], cookies_file_path = [], url_input = ''http://x/y'',
      audio_only_checkbox = True, override_save_location_checkbox = True,
      use_cookies_checkbox = False, cookies_browser_combo = Brave,
      cookies_profile_input = [], use_cookies_file_checkbox = False,
      status_display = [], download_btn = True, open_last_save_btn = False,
      worker = None\<rparr>" "[]" "\<lambda>p. True"]
  show ?thesis
    using a b blank u by simp
qed

subsection \<open>The events of a run\<close>

lemma run_eq:
  "run w r =
     snd (run_prepare w)
     @ (case r of
          SpawnFails e \<Rightarrow> [Line (''Error: '' @ e)]
        | Spawned ls None \<Rightarrow> map (\<lambda>l. Line (strip l)) ls @ [Line ''Download finished.'']
        | Spawned ls (Some e) \<Rightarrow> map (\<lambda>l. Line (strip l)) ls @ [Line (''Error: '' @ e)])
     @ [Completed]"
  by (simp add: run_def emit_def stdout_loop_eq split: prod.splits popen_result.splits option.splits)

lemma run_prepare_events:
  "snd (run_prepare w) =
     [Line ((if audio_only w then ''Starting audio download: '' else ''Starting video download: '')
            @ url w @ [CHR 0x0A] @ ''Download directory: ''
            @ (if audio_only w then audio_dir w else video_dir w))]
     @ (case cookies_file w of
          Some (c # cs) \<Rightarrow> [Line (''Using cookies file: '' @ c # cs)]
        | _ \<Rightarrow> (case cookies_browser w of
                  Some (b # bs) \<Rightarrow> [Line (''Using cookies from browser: '' @ b # bs)]
                | _ \<Rightarrow> []))"
  by (simp add: run_prepare_eq)

lemma run_prepare_no_error: "filter is_error_line (snd (run_prepare w)) = []"
  by (simp add: run_prepare_events is_error_line_def split: option.splits list.splits)

lemma run_prepare_no_completed: "filter (\<lambda>ev. ev = Completed) (snd (run_prepare w)) = []"
  by (simp add: run_prepare_events split: option.splits list.splits)

lemma lines_no_completed: "filter (\<lambda>ev. ev = Completed) (map (\<lambda>l. Line (f l)) ls) = []"
  by (induction ls) simp_all

lemma run_one_completed: "filter (\<lambda>ev. ev = Completed) (run w r) = [Completed]"
  by (simp add: run_eq run_prepare_no_completed lines_no_completed
        split: popen_result.splits option.splits)

lemma run_last_completed: "last (run w r) = Completed"
  by (simp add: run_eq)

lemma deliver_status:
  "status_display (foldl deliver g evs)
     = status_display g @ concat (map (\<lambda>ev. case ev of Line text \<Rightarrow> [text] | Completed \<Rightarrow> []) evs)"
proof (induction evs arbitrary: g)
  case Nil
  show ?case by simp
next
  case (Cons ev evs)
  show ?case by (cases ev) (simp_all add: Cons.IH)
qed

lemma deliver_button:
  "download_btn (foldl deliver g evs) = (if Completed \<in> set evs then True else download_btn g)"
proof (induction evs arbitrary: g)
  case Nil
  show ?case by simp
next
  case (Cons ev evs)
  show ?case by (cases ev) (simp_all add: Cons.IH)
qed

subsection \<open>C5: the spawn fails\<close>

text \<open>
  C5. When the spawn raises, the worker emits, after the start messages that precede
  the spawn, the line \<^verbatim>\<open>Error: \<close> followed by the text of the exception, and then
  the completion event, and nothing after it. Exactly one line event of the run is an
  error report and exactly one event is the completion. Delivered to the window, the
  events leave the error text as the last entry of the status display and the
  Download button enabled.
\<close>

theorem C5_spawn_failure:
  "run w (SpawnFails e) =
     [Line ((if audio_only w then ''Starting audio download: '' else ''Starting video download: '')
            @ url w @ [CHR 0x0A] @ ''Download directory: ''
            @ (if audio_only w then audio_dir w else video_dir w))]
     @ (case cookies_file w of
          Some (c # cs) \<Rightarrow> [Line (''Using cookies file: '' @ c # cs)]
        | _ \<Rightarrow> (case cookies_browser w of
                  Some (b # bs) \<Rightarrow> [Line (''Using cookies from browser: '' @ b # bs)]
                | _ \<Rightarrow> []))
     @ [Line (''Error: '' @ e), Completed]
   \<and> filter is_error_line (run w (SpawnFails e)) = [Line (''Error: '' @ e)]
   \<and> filter (\<lambda>ev. ev = Completed) (run w (SpawnFails e)) = [Completed]
   \<and> download_btn (foldl deliver g (run w (SpawnFails e)))
   \<and> last (status_display (foldl deliver g (run w (SpawnFails e)))) = ''Error: '' @ e"
proof (intro conjI)
  show "run w (SpawnFails e) =
     [Line ((if audio_only w then ''Starting audio download: '' else ''Starting video download: '')
            @ url w @ [CHR 0x0A] @ ''Download directory: ''
            @ (if audio_only w then audio_dir w else video_dir w))]
     @ (case cookies_file w of
          Some (c # cs) \<Rightarrow> [Line (''Using cookies file: '' @ c # cs)]
        | _ \<Rightarrow> (case cookies_browser w of
                  Some (b # bs) \<Rightarrow> [Line (''Using cookies from browser: '' @ b # bs)]
                | _ \<Rightarrow> []))
     @ [Line (''Error: '' @ e), Completed]"
    by (simp add: run_eq run_prepare_events)
  show "filter is_error_line (run w (SpawnFails e)) = [Line (''Error: '' @ e)]"
    by (simp add: run_eq run_prepare_no_error) (simp add: is_error_line_def)
  show "filter (\<lambda>ev. ev = Completed) (run w (SpawnFails e)) = [Completed]"
    by (rule run_one_completed)
  show "download_btn (foldl deliver g (run w (SpawnFails e)))"
    by (simp add: deliver_button run_eq)
  show "last (status_display (foldl deliver g (run w (SpawnFails e)))) = ''Error: '' @ e"
    by (simp add: deliver_status run_eq)
qed

text \<open>A video download whose spawn fails because the tool is not installed.\<close>

theorem C5_spawn_failure_witness:
  "run \<lparr>url = ''http://x/y'', video_dir = ''/tmp/v'', audio_dir = ''/tmp/a'',
        audio_only = False, cookies_browser = None, cookies_file = None\<rparr>
       (SpawnFails ''No such file or directory'')
     = [Line (''Starting video download: http://x/y'' @ [CHR 0x0A]
              @ ''Download directory: /tmp/v''),
        Line ''Error: No such file or directory'', Completed]"
  using C5_spawn_failure [of "\<lparr>url = ''http://x/y'', video_dir = ''/tmp/v'',
        audio_dir = ''/tmp/a'', audio_only = False, cookies_browser = None,
        cookies_file = None\<rparr>" "''No such file or directory''"]
  by simp

subsection \<open>C4: the order of the events\<close>

text \<open>
  For a child that prints \<^verbatim>\<open>A\<close>, \<^verbatim>\<open>B\<close>, \<^verbatim>\<open>C\<close> and exits, the events are not just the
  three lines and the completion: the worker sends its own messages over the same
  signal.
\<close>

theorem C4_event_order_counterexample:
  "run \<lparr>url = ''http://x/y'', video_dir = ''/tmp/v'', audio_dir = ''/tmp/a'',
        audio_only = False, cookies_browser = None, cookies_file = None\<rparr>
       (Spawned [''A'', ''B'', ''C''] None)
     \<noteq> [Line ''A'', Line ''B'', Line ''C'', Completed]"
  by (simp add: run_eq run_prepare_events)

text \<open>
  C4, as the code has it. For a child that prints the lines \<open>ls\<close> and exits, the
  events are, in this order: the start message, the cookie message if a cookie
  source is used, one line event for each line of the child in the child's order
  (each stripped), the line \<^verbatim>\<open>Download finished.\<close>, and the completion event. In
  every run, whatever the child does, exactly one completion event is emitted and it
  is the last event.
\<close>

theorem C4_event_order:
  "run w (Spawned ls None) =
     [Line ((if audio_only w then ''Starting audio download: '' else ''Starting video download: '')
            @ url w @ [CHR 0x0A] @ ''Download directory: ''
            @ (if audio_only w then audio_dir w else video_dir w))]
     @ (case cookies_file w of
          Some (c # cs) \<Rightarrow> [Line (''Using cookies file: '' @ c # cs)]
        | _ \<Rightarrow> (case cookies_browser w of
                  Some (b # bs) \<Rightarrow> [Line (''Using cookies from browser: '' @ b # bs)]
                | _ \<Rightarrow> []))
     @ map (\<lambda>l. Line (strip l)) ls
     @ [Line ''Download finished.'', Completed]
   \<and> filter (\<lambda>ev. ev = Completed) (run w r) = [Completed]
   \<and> last (run w r) = Completed"
  by (simp add: run_one_completed run_last_completed) (simp add: run_eq run_prepare_events)

text \<open>The child that prints \<^verbatim>\<open>A\<close>, \<^verbatim>\<open>B\<close>, \<^verbatim>\<open>C\<close>.\<close>

theorem C4_event_order_witness:
  "run \<lparr>url = ''http://x/y'', video_dir = ''/tmp/v'', audio_dir = ''/tmp/a'',
        audio_only = False, cookies_browser = None, cookies_file = None\<rparr>
       (Spawned [''A'', ''B'', ''C''] None)
     = [Line (''Starting video download: http://x/y'' @ [CHR 0x0A]
              @ ''Download directory: /tmp/v''),
        Line ''A'', Line ''B'', Line ''C'', Line ''Download finished.'', Completed]"
proof -
  have s: "strip ''A'' = ''A''" "strip ''B'' = ''B''" "strip ''C'' = ''C''"
    by (simp_all add: strip_def isspace_def)
  show ?thesis
    using C4_event_order [of "\<lparr>url = ''http://x/y'', video_dir = ''/tmp/v'',
        audio_dir = ''/tmp/a'', audio_only = False, cookies_browser = None,
        cookies_file = None\<rparr>" "[''A'', ''B'', ''C'']"] s
    by simp
qed

subsection \<open>C9: the whitespace of a line\<close>

lemma rstrip_strip:
  "rstrip l = (if strip l = [] then [] else takeWhile isspace l @ strip l)"
proof (cases "strip l = []")
  case True
  then have "\<forall>c\<in>set l. isspace c" by (simp add: strip_empty_iff)
  then have "\<forall>c\<in>set (rev l). isspace c" by simp
  then have "dropWhile isspace (rev l) = []" by (simp only: dropWhile_eq_Nil_conv)
  then show ?thesis using True by (simp add: rstrip_def)
next
  case False
  let ?t = "dropWhile isspace l"
  have u: "dropWhile isspace (rev ?t) \<noteq> []" using False by (simp add: strip_def)
  then have t: "?t \<noteq> []" by (rule dropWhile_rev_nonempty)
  then have "\<not> isspace (hd ?t)" by (rule hd_dropWhile)
  moreover have "hd ?t \<in> set (rev ?t)" using t by simp
  ultimately have "dropWhile isspace (rev ?t @ rev (takeWhile isspace l))
                     = dropWhile isspace (rev ?t) @ rev (takeWhile isspace l)"
    by (rule dropWhile_append1 [rotated])
  moreover have "rev l = rev ?t @ rev (takeWhile isspace l)"
    by (metis rev_append takeWhile_dropWhile_id)
  ultimately have "rstrip l = rev (dropWhile isspace (rev ?t) @ rev (takeWhile isspace l))"
    by (simp only: rstrip_def)
  then have "rstrip l = takeWhile isspace l @ strip l"
    by (simp only: rev_append rev_rev_ident strip_def)
  then show ?thesis using False by (simp only: if_False)
qed

text \<open>
  The line of two blanks, \<^verbatim>\<open>A\<close> and a line feed is not emitted with only its
  trailing whitespace removed.
\<close>

theorem C9_line_whitespace_counterexample:
  "stdout_loop [''  A\<newline>''] [] \<noteq> [Line (rstrip ''  A\<newline>'')]"
  by (simp add: emit_def strip_def rstrip_def isspace_def)

text \<open>
  C9, as the code has it. Each line read from the child is emitted with the
  whitespace at both ends removed and is otherwise unchanged: the emitted text is
  empty exactly when the line is all whitespace; otherwise it starts and ends with a
  character that is not whitespace, and the line is its leading whitespace, the
  emitted text, and trailing whitespace. The text with only the trailing whitespace
  removed is the leading whitespace followed by the emitted text.
\<close>

theorem C9_line_whitespace:
  "stdout_loop ls out = out @ map (\<lambda>l. Line (strip l)) ls
   \<and> (strip l = [] \<longleftrightarrow> list_all isspace l)
   \<and> (strip l \<noteq> [] \<longrightarrow> \<not> isspace (hd (strip l)) \<and> \<not> isspace (last (strip l)))
   \<and> (\<exists>post. l = takeWhile isspace l @ strip l @ post \<and> list_all isspace post)
   \<and> rstrip l = (if strip l = [] then [] else takeWhile isspace l @ strip l)"
proof (intro conjI)
  show "stdout_loop ls out = out @ map (\<lambda>l. Line (strip l)) ls"
    by (rule stdout_loop_eq)
  show "strip l = [] \<longleftrightarrow> list_all isspace l"
    by (simp add: strip_empty_iff list_all_iff)
  show "strip l \<noteq> [] \<longrightarrow> \<not> isspace (hd (strip l)) \<and> \<not> isspace (last (strip l))"
    using strip_ends [of l] by blast
  show "\<exists>post. l = takeWhile isspace l @ strip l @ post \<and> list_all isspace post"
  proof (intro exI conjI)
    show "l = takeWhile isspace l @ strip l
              @ rev (takeWhile isspace (rev (dropWhile isspace l)))"
      by (rule strip_decomp)
    show "list_all isspace (rev (takeWhile isspace (rev (dropWhile isspace l))))"
      by (auto simp: list_all_iff dest: set_takeWhileD)
  qed
  show "rstrip l = (if strip l = [] then [] else takeWhile isspace l @ strip l)"
    by (rule rstrip_strip)
qed

text \<open>The line of the counterexample.\<close>

theorem C9_line_whitespace_witness:
  "stdout_loop [''  A\<newline>''] [] = [Line ''A'']
   \<and> rstrip ''  A\<newline>'' = ''  A''
   \<and> strip ''  A\<newline>'' = ''A''"
proof -
  have s: "strip ''  A\<newline>'' = ''A''"
    by (simp add: strip_def isspace_def)
  have t: "takeWhile isspace ''  A\<newline>'' = ''  ''"
    by (simp add: isspace_def)
  show ?thesis
    using C9_line_whitespace [of "[''  A\<newline>'']" "[]" "''  A\<newline>''"] s t
    by simp
qed

subsection \<open>The settings file\<close>

lemma load_config_defaults:
  "load_config Missing d = d" "load_config Unparseable d = d"
  "load_config (Parsed JNull) d = d" "load_config (Parsed (JBool b)) d = d"
  "load_config (Parsed (JInt i)) d = d" "load_config (Parsed (JStr t)) d = d"
  "load_config (Parsed (JArr xs)) d = d"
  by (simp_all add: load_config_def)

lemma load_config_window_size:
  "s_window_size (load_config (Parsed (JObj kvs)) d)
     = Some (case map_of kvs ''window_size'' of None \<Rightarrow> JNull | Some v \<Rightarrow> v)"
  by (simp add: load_config_def dict_get_def)

lemma init_without_file:
  assumes "f = Missing \<or> f = Unparseable"
  shows "init widgets qsize home f =
           (case widgets \<lparr>s_video_dir = JStr home, s_audio_dir = JStr home,
                           s_last_save_dir = JStr [], s_window_size = None\<rparr> of
              Some e \<Rightarrow> Inl e
            | None \<Rightarrow> Inr (\<lparr>s_video_dir = JStr home, s_audio_dir = JStr home,
                              s_last_save_dir = JStr [], s_window_size = None\<rparr>, None))"
  using assms by (auto simp: init_def load_config_defaults Let_def split: option.splits)

lemma init_window_size_absent:
  assumes "map_of kvs ''window_size'' = None"
  shows "isl (init widgets qsize home (Parsed (JObj kvs)))"
proof -
  let ?s = "load_config (Parsed (JObj kvs)) \<lparr>s_video_dir = JStr home, s_audio_dir = JStr home,
                 s_last_save_dir = JStr [], s_window_size = None\<rparr>"
  have "s_window_size ?s = Some JNull"
    using assms by (simp add: load_config_window_size)
  then show ?thesis
    by (simp add: init_def Let_def split: option.splits)
qed

subsection \<open>C6: saving and loading\<close>

text \<open>
  C6. After a save that succeeds, \<^verbatim>\<open>load_config\<close> assigns the three saved
  directories unchanged and the saved window size \<open>[w, h]\<close>, whatever the attributes
  were before. So for settings \<open>s\<close> whose window size is the size of the window,
  loading what was saved gives \<open>s\<close> again; and a start of the program on the saved
  file ends with these settings and resizes the window to \<open>(w, h)\<close>, if the toolkit
  builds the widgets and \<^verbatim>\<open>QSize\<close> accepts the two integers.
\<close>

theorem C6_settings_round_trip:
  "load_config (save_config Written s w h f) d =
     \<lparr>s_video_dir = s_video_dir s, s_audio_dir = s_audio_dir s,
      s_last_save_dir = s_last_save_dir s, s_window_size = Some (JArr [JInt w, JInt h])\<rparr>
   \<and> (s_window_size s = Some (JArr [JInt w, JInt h]) \<longrightarrow>
        load_config (save_config Written s w h f) d = s)
   \<and> (s_window_size s = Some (JArr [JInt w, JInt h]) \<and> widgets s = None
        \<and> qsize [JInt w, JInt h] = Inr (w, h) \<longrightarrow>
        init widgets qsize home (save_config Written s w h f) = Inr (s, Some (w, h)))"
proof -
  have l: "load_config (save_config Written s w h f) d =
     \<lparr>s_video_dir = s_video_dir s, s_audio_dir = s_audio_dir s,
      s_last_save_dir = s_last_save_dir s, s_window_size = Some (JArr [JInt w, JInt h])\<rparr>"
    for d
    by (cases d) (simp add: load_config_def save_config_def dict_get_def)
  have e: "\<lparr>s_video_dir = s_video_dir s, s_audio_dir = s_audio_dir s,
      s_last_save_dir = s_last_save_dir s, s_window_size = Some (JArr [JInt w, JInt h])\<rparr> = s"
    if "s_window_size s = Some (JArr [JInt w, JInt h])"
    using that by (cases s) simp
  have i: "init widgets qsize home (save_config Written s w h f) = Inr (s, Some (w, h))"
    if "s_window_size s = Some (JArr [JInt w, JInt h]) \<and> widgets s = None
        \<and> qsize [JInt w, JInt h] = Inr (w, h)"
  proof -
    have "load_config (save_config Written s w h f)
            \<lparr>s_video_dir = JStr home, s_audio_dir = JStr home,
             s_last_save_dir = JStr [], s_window_size = None\<rparr> = s"
      using that e by (simp add: l)
    then show ?thesis
      using that by (simp add: init_def Let_def)
  qed
  show ?thesis
    using l e i by simp
qed

text \<open>
  Settings with two directories and a window of 800 by 600, saved over a missing
  file and loaded into other attributes.
\<close>

theorem C6_settings_round_trip_witness:
  "load_config
     (save_config Written
        \<lparr>s_video_dir = JStr ''/tmp/v'', s_audio_dir = JStr ''/tmp/a'',
         s_last_save_dir = JStr ''/tmp/a'', s_window_size = Some (JArr [JInt 800, JInt 600])\<rparr>
        800 600 Missing)
     \<lparr>s_video_dir = JStr ''/home/u'', s_audio_dir = JStr ''/home/u'',
      s_last_save_dir = JStr [], s_window_size = None\<rparr>
   = \<lparr>s_video_dir = JStr ''/tmp/v'', s_audio_dir = JStr ''/tmp/a'',
      s_last_save_dir = JStr ''/tmp/a'', s_window_size = Some (JArr [JInt 800, JInt 600])\<rparr>
   \<and> init (\<lambda>s. None) (\<lambda>args. Inr (800, 600)) ''/home/u''
       (save_config Written
          \<lparr>s_video_dir = JStr ''/tmp/v'', s_audio_dir = JStr ''/tmp/a'',
           s_last_save_dir = JStr ''/tmp/a'', s_window_size = Some (JArr [JInt 800, JInt 600])\<rparr>
          800 600 Missing)
     = Inr (\<lparr>s_video_dir = JStr ''/tmp/v'', s_audio_dir = JStr ''/tmp/a'',
             s_last_save_dir = JStr ''/tmp/a'',
             s_window_size = Some (JArr [JInt 800, JInt 600])\<rparr>, Some (800, 600))"
  using C6_settings_round_trip [of
      "\<lparr>s_video_dir = JStr ''/tmp/v'', s_audio_dir = JStr ''/tmp/a'',
        s_last_save_dir = JStr ''/tmp/a'', s_window_size = Some (JArr [JInt 800, JInt 600])\<rparr>"
      800 600 Missing
      "\<lparr>s_video_dir = JStr ''/home/u'', s_audio_dir = JStr ''/home/u'',
        s_last_save_dir = JStr [], s_window_size = None\<rparr>"
      "\<lambda>s. None" "\<lambda>args. Inr (800, 600)" "''/home/u''"]
  by simp

subsection \<open>C8: a settings file without a window size\<close>

text \<open>
  C8 fails on the code. For a settings file that holds a JSON object with the three
  directories and no \<^verbatim>\<open>window_size\<close>, \<^verbatim>\<open>load_config\<close> sets the attribute to
  \<^verbatim>\<open>None\<close>, the test \<^verbatim>\<open>hasattr(self, 'window_size')\<close> succeeds, and unpacking
  \<^verbatim>\<open>None\<close> for \<^verbatim>\<open>QSize\<close> raises a \<^verbatim>\<open>TypeError\<close> that leaves the constructor,
  even when the toolkit builds every widget and whatever \<^verbatim>\<open>QSize\<close> accepts.
\<close>

theorem C8_window_size_absent:
  "init (\<lambda>s. None) qsize ''/home/u''
     (Parsed (JObj [(''video_dir'', JStr ''/tmp/v''), (''audio_dir'', JStr ''/tmp/a''),
                    (''last_save_dir'', JStr ''/tmp/a'')]))
     = Inl TypeError"
  by (simp add: init_def load_config_def dict_get_def)

end
